theory Spec2Isabelle
  imports Main "HOL-Library.Sublist"
begin

section \<open>Text: Python strings, \<open>str.lower\<close> and \<open>str.strip\<close>\<close>

text \<open>
  A Python string is its list of Unicode code points. \<open>ustr\<close> gives the string of an ASCII
  literal.
\<close>

type_synonym pystr = "int list"

definition ustr :: "string \<Rightarrow> pystr" where
  "ustr s = map of_char s"

text \<open>
  The tables that \<open>str.lower\<close> and \<open>str.strip\<close> consult (Unicode 14.0, as in CPython 3.11),
  each sorted by its first component:
  \<^item> \<open>lower_table\<close>: an entry \<open>(lo, hi, step, d)\<close> says that the code points \<open>lo\<close>, \<open>lo + step\<close>,
    ... up to \<open>hi\<close> have the lowercase code point \<open>d\<close> further on;
  \<^item> \<open>case_ignorable_table\<close>: the ranges of the case-ignorable code points;
  \<^item> \<open>cased_table\<close>: the ranges of the cased code points that are not case-ignorable (the
    final-sigma rule asks for \<open>cased\<close> only after it has skipped the case-ignorable ones);
  \<^item> \<open>space_table\<close>: the ranges of the code points for which \<open>str.isspace\<close> holds.
\<close>

definition lower_table :: "(int \<times> int \<times> int \<times> int) list" where
  "lower_table =
     [
      (65, 90, 1, 32), (192, 214, 1, 32), (216, 222, 1, 32), (256, 302, 2, 1),
      (306, 310, 2, 1), (313, 327, 2, 1), (330, 374, 2, 1), (376, 376, 1, -121),
      (377, 381, 2, 1), (385, 385, 1, 210), (386, 388, 2, 1), (390, 390, 1, 206),
      (391, 391, 1, 1), (393, 394, 1, 205), (395, 395, 1, 1), (398, 398, 1, 79),
      (399, 399, 1, 202), (400, 400, 1, 203), (401, 401, 1, 1), (403, 403, 1, 205),
      (404, 404, 1, 207), (406, 406, 1, 211), (407, 407, 1, 209), (408, 408, 1, 1),
      (412, 412, 1, 211), (413, 413, 1, 213), (415, 415, 1, 214), (416, 420, 2, 1),
      (422, 422, 1, 218), (423, 423, 1, 1), (425, 425, 1, 218), (428, 428, 1, 1),
      (430, 430, 1, 218), (431, 431, 1, 1), (433, 434, 1, 217), (435, 437, 2, 1),
      (439, 439, 1, 219), (440, 440, 1, 1), (444, 444, 1, 1), (452, 452, 1, 2),
      (453, 453, 1, 1), (455, 455, 1, 2), (456, 456, 1, 1), (458, 458, 1, 2),
      (459, 475, 2, 1), (478, 494, 2, 1), (497, 497, 1, 2), (498, 500, 2, 1),
      (502, 502, 1, -97), (503, 503, 1, -56), (504, 542, 2, 1), (544, 544, 1, -130),
      (546, 562, 2, 1), (570, 570, 1, 10795), (571, 571, 1, 1), (573, 573, 1, -163),
      (574, 574, 1, 10792), (577, 577, 1, 1), (579, 579, 1, -195), (580, 580, 1, 69),
      (581, 581, 1, 71), (582, 590, 2, 1), (880, 882, 2, 1), (886, 886, 1, 1),
      (895, 895, 1, 116), (902, 902, 1, 38), (904, 906, 1, 37), (908, 908, 1, 64),
      (910, 911, 1, 63), (913, 929, 1, 32), (931, 939, 1, 32), (975, 975, 1, 8),
      (984, 1006, 2, 1), (1012, 1012, 1, -60), (1015, 1015, 1, 1), (1017, 1017, 1, -7),
      (1018, 1018, 1, 1), (1021, 1023, 1, -130), (1024, 1039, 1, 80), (1040, 1071, 1, 32),
      (1120, 1152, 2, 1), (1162, 1214, 2, 1), (1216, 1216, 1, 15), (1217, 1229, 2, 1),
      (1232, 1326, 2, 1), (1329, 1366, 1, 48), (4256, 4293, 1, 7264), (4295, 4295, 1, 7264),
      (4301, 4301, 1, 7264), (5024, 5103, 1, 38864), (5104, 5109, 1, 8), (7312, 7354, 1, -3008),
      (7357, 7359, 1, -3008), (7680, 7828, 2, 1), (7838, 7838, 1, -7615), (7840, 7934, 2, 1),
      (7944, 7951, 1, -8), (7960, 7965, 1, -8), (7976, 7983, 1, -8), (7992, 7999, 1, -8),
      (8008, 8013, 1, -8), (8025, 8031, 2, -8), (8040, 8047, 1, -8), (8072, 8079, 1, -8),
      (8088, 8095, 1, -8), (8104, 8111, 1, -8), (8120, 8121, 1, -8), (8122, 8123, 1, -74),
      (8124, 8124, 1, -9), (8136, 8139, 1, -86), (8140, 8140, 1, -9), (8152, 8153, 1, -8),
      (8154, 8155, 1, -100), (8168, 8169, 1, -8), (8170, 8171, 1, -112), (8172, 8172, 1, -7),
      (8184, 8185, 1, -128), (8186, 8187, 1, -126), (8188, 8188, 1, -9), (8486, 8486, 1, -7517),
      (8490, 8490, 1, -8383), (8491, 8491, 1, -8262), (8498, 8498, 1, 28), (8544, 8559, 1, 16),
      (8579, 8579, 1, 1), (9398, 9423, 1, 26), (11264, 11311, 1, 48), (11360, 11360, 1, 1),
      (11362, 11362, 1, -10743), (11363, 11363, 1, -3814), (11364, 11364, 1, -10727), (11367, 11371, 2, 1),
      (11373, 11373, 1, -10780), (11374, 11374, 1, -10749), (11375, 11375, 1, -10783), (11376, 11376, 1, -10782),
      (11378, 11378, 1, 1), (11381, 11381, 1, 1), (11390, 11391, 1, -10815), (11392, 11490, 2, 1),
      (11499, 11501, 2, 1), (11506, 11506, 1, 1), (42560, 42604, 2, 1), (42624, 42650, 2, 1),
      (42786, 42798, 2, 1), (42802, 42862, 2, 1), (42873, 42875, 2, 1), (42877, 42877, 1, -35332),
      (42878, 42886, 2, 1), (42891, 42891, 1, 1), (42893, 42893, 1, -42280), (42896, 42898, 2, 1),
      (42902, 42920, 2, 1), (42922, 42922, 1, -42308), (42923, 42923, 1, -42319), (42924, 42924, 1, -42315),
      (42925, 42925, 1, -42305), (42926, 42926, 1, -42308), (42928, 42928, 1, -42258), (42929, 42929, 1, -42282),
      (42930, 42930, 1, -42261), (42931, 42931, 1, 928), (42932, 42946, 2, 1), (42948, 42948, 1, -48),
      (42949, 42949, 1, -42307), (42950, 42950, 1, -35384), (42951, 42953, 2, 1), (42960, 42960, 1, 1),
      (42966, 42968, 2, 1), (42997, 42997, 1, 1), (65313, 65338, 1, 32), (66560, 66599, 1, 40),
      (66736, 66771, 1, 40), (66928, 66938, 1, 39), (66940, 66954, 1, 39), (66956, 66962, 1, 39),
      (66964, 66965, 1, 39), (68736, 68786, 1, 64), (71840, 71871, 1, 32), (93760, 93791, 1, 32),
      (125184, 125217, 1, 34)]"

definition case_ignorable_table :: "(int \<times> int) list" where
  "case_ignorable_table =
     [
      (39, 39), (46, 46), (58, 58), (94, 94), (96, 96), (168, 168),
      (173, 173), (175, 175), (180, 180), (183, 184), (688, 879), (884, 885),
      (890, 890), (900, 901), (903, 903), (1155, 1161), (1369, 1369), (1375, 1375),
      (1425, 1469), (1471, 1471), (1473, 1474), (1476, 1477), (1479, 1479), (1524, 1524),
      (1536, 1541), (1552, 1562), (1564, 1564), (1600, 1600), (1611, 1631), (1648, 1648),
      (1750, 1757), (1759, 1768), (1770, 1773), (1807, 1807), (1809, 1809), (1840, 1866),
      (1958, 1968), (2027, 2037), (2042, 2042), (2045, 2045), (2070, 2093), (2137, 2139),
      (2184, 2184), (2192, 2193), (2200, 2207), (2249, 2306), (2362, 2362), (2364, 2364),
      (2369, 2376), (2381, 2381), (2385, 2391), (2402, 2403), (2417, 2417), (2433, 2433),
      (2492, 2492), (2497, 2500), (2509, 2509), (2530, 2531), (2558, 2558), (2561, 2562),
      (2620, 2620), (2625, 2626), (2631, 2632), (2635, 2637), (2641, 2641), (2672, 2673),
      (2677, 2677), (2689, 2690), (2748, 2748), (2753, 2757), (2759, 2760), (2765, 2765),
      (2786, 2787), (2810, 2815), (2817, 2817), (2876, 2876), (2879, 2879), (2881, 2884),
      (2893, 2893), (2901, 2902), (2914, 2915), (2946, 2946), (3008, 3008), (3021, 3021),
      (3072, 3072), (3076, 3076), (3132, 3132), (3134, 3136), (3142, 3144), (3146, 3149),
      (3157, 3158), (3170, 3171), (3201, 3201), (3260, 3260), (3263, 3263), (3270, 3270),
      (3276, 3277), (3298, 3299), (3328, 3329), (3387, 3388), (3393, 3396), (3405, 3405),
      (3426, 3427), (3457, 3457), (3530, 3530), (3538, 3540), (3542, 3542), (3633, 3633),
      (3636, 3642), (3654, 3662), (3761, 3761), (3764, 3772), (3782, 3782), (3784, 3789),
      (3864, 3865), (3893, 3893), (3895, 3895), (3897, 3897), (3953, 3966), (3968, 3972),
      (3974, 3975), (3981, 3991), (3993, 4028), (4038, 4038), (4141, 4144), (4146, 4151),
      (4153, 4154), (4157, 4158), (4184, 4185), (4190, 4192), (4209, 4212), (4226, 4226),
      (4229, 4230), (4237, 4237), (4253, 4253), (4348, 4348), (4957, 4959), (5906, 5908),
      (5938, 5939), (5970, 5971), (6002, 6003), (6068, 6069), (6071, 6077), (6086, 6086),
      (6089, 6099), (6103, 6103), (6109, 6109), (6155, 6159), (6211, 6211), (6277, 6278),
      (6313, 6313), (6432, 6434), (6439, 6440), (6450, 6450), (6457, 6459), (6679, 6680),
      (6683, 6683), (6742, 6742), (6744, 6750), (6752, 6752), (6754, 6754), (6757, 6764),
      (6771, 6780), (6783, 6783), (6823, 6823), (6832, 6862), (6912, 6915), (6964, 6964),
      (6966, 6970), (6972, 6972), (6978, 6978), (7019, 7027), (7040, 7041), (7074, 7077),
      (7080, 7081), (7083, 7085), (7142, 7142), (7144, 7145), (7149, 7149), (7151, 7153),
      (7212, 7219), (7222, 7223), (7288, 7293), (7376, 7378), (7380, 7392), (7394, 7400),
      (7405, 7405), (7412, 7412), (7416, 7417), (7468, 7530), (7544, 7544), (7579, 7679),
      (8125, 8125), (8127, 8129), (8141, 8143), (8157, 8159), (8173, 8175), (8189, 8190),
      (8203, 8207), (8216, 8217), (8228, 8228), (8231, 8231), (8234, 8238), (8288, 8292),
      (8294, 8303), (8305, 8305), (8319, 8319), (8336, 8348), (8400, 8432), (11388, 11389),
      (11503, 11505), (11631, 11631), (11647, 11647), (11744, 11775), (11823, 11823), (12293, 12293),
      (12330, 12333), (12337, 12341), (12347, 12347), (12441, 12446), (12540, 12542), (40981, 40981),
      (42232, 42237), (42508, 42508), (42607, 42610), (42612, 42621), (42623, 42623), (42652, 42655),
      (42736, 42737), (42752, 42785), (42864, 42864), (42888, 42890), (42994, 42996), (43000, 43001),
      (43010, 43010), (43014, 43014), (43019, 43019), (43045, 43046), (43052, 43052), (43204, 43205),
      (43232, 43249), (43263, 43263), (43302, 43309), (43335, 43345), (43392, 43394), (43443, 43443),
      (43446, 43449), (43452, 43453), (43471, 43471), (43493, 43494), (43561, 43566), (43569, 43570),
      (43573, 43574), (43587, 43587), (43596, 43596), (43632, 43632), (43644, 43644), (43696, 43696),
      (43698, 43700), (43703, 43704), (43710, 43711), (43713, 43713), (43741, 43741), (43756, 43757),
      (43763, 43764), (43766, 43766), (43867, 43871), (43881, 43883), (44005, 44005), (44008, 44008),
      (44013, 44013), (64286, 64286), (64434, 64450), (65024, 65039), (65043, 65043), (65056, 65071),
      (65106, 65106), (65109, 65109), (65279, 65279), (65287, 65287), (65294, 65294), (65306, 65306),
      (65342, 65342), (65344, 65344), (65392, 65392), (65438, 65439), (65507, 65507), (65529, 65531),
      (66045, 66045), (66272, 66272), (66422, 66426), (67456, 67461), (67463, 67504), (67506, 67514),
      (68097, 68099), (68101, 68102), (68108, 68111), (68152, 68154), (68159, 68159), (68325, 68326),
      (68900, 68903), (69291, 69292), (69446, 69456), (69506, 69509), (69633, 69633), (69688, 69702),
      (69744, 69744), (69747, 69748), (69759, 69761), (69811, 69814), (69817, 69818), (69821, 69821),
      (69826, 69826), (69837, 69837), (69888, 69890), (69927, 69931), (69933, 69940), (70003, 70003),
      (70016, 70017), (70070, 70078), (70089, 70092), (70095, 70095), (70191, 70193), (70196, 70196),
      (70198, 70199), (70206, 70206), (70367, 70367), (70371, 70378), (70400, 70401), (70459, 70460),
      (70464, 70464), (70502, 70508), (70512, 70516), (70712, 70719), (70722, 70724), (70726, 70726),
      (70750, 70750), (70835, 70840), (70842, 70842), (70847, 70848), (70850, 70851), (71090, 71093),
      (71100, 71101), (71103, 71104), (71132, 71133), (71219, 71226), (71229, 71229), (71231, 71232),
      (71339, 71339), (71341, 71341), (71344, 71349), (71351, 71351), (71453, 71455), (71458, 71461),
      (71463, 71467), (71727, 71735), (71737, 71738), (71995, 71996), (71998, 71998), (72003, 72003),
      (72148, 72151), (72154, 72155), (72160, 72160), (72193, 72202), (72243, 72248), (72251, 72254),
      (72263, 72263), (72273, 72278), (72281, 72283), (72330, 72342), (72344, 72345), (72752, 72758),
      (72760, 72765), (72767, 72767), (72850, 72871), (72874, 72880), (72882, 72883), (72885, 72886),
      (73009, 73014), (73018, 73018), (73020, 73021), (73023, 73029), (73031, 73031), (73104, 73105),
      (73109, 73109), (73111, 73111), (73459, 73460), (78896, 78904), (92912, 92916), (92976, 92982),
      (92992, 92995), (94031, 94031), (94095, 94111), (94176, 94177), (94179, 94180), (110576, 110579),
      (110581, 110587), (110589, 110590), (113821, 113822), (113824, 113827), (118528, 118573), (118576, 118598),
      (119143, 119145), (119155, 119170), (119173, 119179), (119210, 119213), (119362, 119364), (121344, 121398),
      (121403, 121452), (121461, 121461), (121476, 121476), (121499, 121503), (121505, 121519), (122880, 122886),
      (122888, 122904), (122907, 122913), (122915, 122916), (122918, 122922), (123184, 123197), (123566, 123566),
      (123628, 123631), (125136, 125142), (125252, 125259), (127995, 127999), (917505, 917505), (917536, 917631),
      (917760, 917999)]"

definition cased_table :: "(int \<times> int) list" where
  "cased_table =
     [
      (65, 90), (97, 122), (170, 170), (181, 181), (186, 186), (192, 214),
      (216, 246), (248, 442), (444, 447), (452, 659), (661, 687), (880, 883),
      (886, 887), (891, 893), (895, 895), (902, 902), (904, 906), (908, 908),
      (910, 929), (931, 1013), (1015, 1153), (1162, 1327), (1329, 1366), (1376, 1416),
      (4256, 4293), (4295, 4295), (4301, 4301), (4304, 4346), (4349, 4351), (5024, 5109),
      (5112, 5117), (7296, 7304), (7312, 7354), (7357, 7359), (7424, 7467), (7531, 7543),
      (7545, 7578), (7680, 7957), (7960, 7965), (7968, 8005), (8008, 8013), (8016, 8023),
      (8025, 8025), (8027, 8027), (8029, 8029), (8031, 8061), (8064, 8116), (8118, 8124),
      (8126, 8126), (8130, 8132), (8134, 8140), (8144, 8147), (8150, 8155), (8160, 8172),
      (8178, 8180), (8182, 8188), (8450, 8450), (8455, 8455), (8458, 8467), (8469, 8469),
      (8473, 8477), (8484, 8484), (8486, 8486), (8488, 8488), (8490, 8493), (8495, 8500),
      (8505, 8505), (8508, 8511), (8517, 8521), (8526, 8526), (8544, 8575), (8579, 8580),
      (9398, 9449), (11264, 11387), (11390, 11492), (11499, 11502), (11506, 11507), (11520, 11557),
      (11559, 11559), (11565, 11565), (42560, 42605), (42624, 42651), (42786, 42863), (42865, 42887),
      (42891, 42894), (42896, 42954), (42960, 42961), (42963, 42963), (42965, 42969), (42997, 42998),
      (43002, 43002), (43824, 43866), (43872, 43880), (43888, 43967), (64256, 64262), (64275, 64279),
      (65313, 65338), (65345, 65370), (66560, 66639), (66736, 66771), (66776, 66811), (66928, 66938),
      (66940, 66954), (66956, 66962), (66964, 66965), (66967, 66977), (66979, 66993), (66995, 67001),
      (67003, 67004), (68736, 68786), (68800, 68850), (71840, 71903), (93760, 93823), (119808, 119892),
      (119894, 119964), (119966, 119967), (119970, 119970), (119973, 119974), (119977, 119980), (119982, 119993),
      (119995, 119995), (119997, 120003), (120005, 120069), (120071, 120074), (120077, 120084), (120086, 120092),
      (120094, 120121), (120123, 120126), (120128, 120132), (120134, 120134), (120138, 120144), (120146, 120485),
      (120488, 120512), (120514, 120538), (120540, 120570), (120572, 120596), (120598, 120628), (120630, 120654),
      (120656, 120686), (120688, 120712), (120714, 120744), (120746, 120770), (120772, 120779), (122624, 122633),
      (122635, 122654), (125184, 125251), (127280, 127305), (127312, 127337), (127344, 127369)]"

definition space_table :: "(int \<times> int) list" where
  "space_table =
     [
      (9, 13), (28, 32), (133, 133), (160, 160), (5760, 5760), (8192, 8202),
      (8232, 8233), (8239, 8239), (8287, 8287), (12288, 12288)]"

fun in_ranges :: "int \<Rightarrow> (int \<times> int) list \<Rightarrow> bool" where
  "in_ranges c [] = False"
| "in_ranges c ((lo, hi) # rs) =
     (if c < lo then False else if c \<le> hi then True else in_ranges c rs)"

fun lower_delta :: "int \<Rightarrow> (int \<times> int \<times> int \<times> int) list \<Rightarrow> int option" where
  "lower_delta c [] = None"
| "lower_delta c ((lo, hi, step, d) # rs) =
     (if c < lo then None
      else if c \<le> hi \<and> (c - lo) mod step = 0 then Some d
      else lower_delta c rs)"

text \<open>
  The full lowercase mapping of one code point: U+0130 has two code points, every other one
  has the code point of the table or stays.
\<close>

definition to_lower_full :: "int \<Rightarrow> pystr" where
  "to_lower_full c =
     (if c = 304 then [105, 775]
      else (case lower_delta c lower_table of None \<Rightarrow> [c] | Some d \<Rightarrow> [c + d]))"

definition case_ignorable :: "int \<Rightarrow> bool" where
  "case_ignorable c = in_ranges c case_ignorable_table"

definition cased :: "int \<Rightarrow> bool" where
  "cased c = in_ranges c cased_table"

definition is_space :: "int \<Rightarrow> bool" where
  "is_space c = in_ranges c space_table"

text \<open>
  \<open>str.lower\<close> maps each code point by \<open>to_lower_full\<close>, except the Greek capital sigma
  U+03A3 (931): it becomes the final sigma U+03C2 (962) when a cased character comes before
  it and none comes after it, case-ignorable characters skipped, and the small sigma U+03C3
  (963) otherwise. \<open>before\<close> holds the code points already passed, the nearest first.
\<close>

definition final_sigma :: "pystr \<Rightarrow> pystr \<Rightarrow> bool" where
  "final_sigma before after =
     ((case dropWhile case_ignorable before of [] \<Rightarrow> False | p # _ \<Rightarrow> cased p) \<and>
      (case dropWhile case_ignorable after of [] \<Rightarrow> True | n # _ \<Rightarrow> \<not> cased n))"

fun lower_from :: "pystr \<Rightarrow> pystr \<Rightarrow> pystr" where
  "lower_from before [] = []"
| "lower_from before (c # after) =
     (if c = 931 then [if final_sigma before after then 962 else 963] else to_lower_full c)
     @ lower_from (c # before) after"

definition lower :: "pystr \<Rightarrow> pystr" where
  "lower s = lower_from [] s"

definition strip :: "pystr \<Rightarrow> pystr" where
  "strip s = rev (dropWhile is_space (rev (dropWhile is_space s)))"

section \<open>Cells, data frames, series\<close>

text \<open>
  A cell is what \<open>read_csv\<close> puts in a column: a string in a text column, an integer (a
  \<open>numpy.int64\<close>, whose 64-bit range the model does not impose) in a column of whole
  numbers, a boolean (a \<open>numpy.bool_\<close>) in a column of \<open>True\<close> and \<open>False\<close>, or \<open>NaN\<close> where
  the file has no value. Columns of floating-point numbers are not part of this model. \<open>astype(str)\<close> gives the decimal numeral of an
  integer, \<open>True\<close> or \<open>False\<close> for a boolean, and \<open>nan\<close> for the missing value.
\<close>

datatype cell = Str pystr | Int64 int | NpBool bool | NaN

function str_pos :: "int \<Rightarrow> pystr" where
  "str_pos n = (if n < 10 then [48 + n] else str_pos (n div 10) @ [48 + n mod 10])"
  by pat_completeness auto
termination
  by (relation "measure nat") auto

definition str_int :: "int \<Rightarrow> pystr" where
  "str_int n = (if n < 0 then 45 # str_pos (- n) else str_pos n)"

fun astype_str :: "cell \<Rightarrow> pystr" where
  "astype_str (Str s) = s"
| "astype_str (Int64 n) = str_int n"
| "astype_str (NpBool b) = (if b then ustr ''True'' else ustr ''False'')"
| "astype_str NaN = ustr ''nan''"

text \<open>
  A data frame is its column labels, in file order and possibly with repetitions, and its
  rows; a series is one row together with the labels.
\<close>

record dataframe =
  columns :: "pystr list"
  rows :: "cell list list"

record series =
  index :: "pystr list"
  cells :: "cell list"

text \<open>
  The exceptions: \<open>ReadError\<close> stands for whatever \<open>read_csv\<close> raises on a file it cannot
  read or parse; the \<open>ValueError\<close> of \<open>load_books\<close> carries the missing column names.
\<close>

datatype error =
    ReadError
  | ValueError "pystr list"
  | KeyError pystr
  | AttributeError
  | TypeError
  | IndexError

text \<open>Every row of a frame has one cell for each column.\<close>

definition frame_ok :: "dataframe \<Rightarrow> bool" where
  "frame_ok df = list_all (\<lambda>r. length r = length (columns df)) (rows df)"

text \<open>The cells that a row holds under a label: none, one, or several when the label repeats.\<close>

definition at_label :: "pystr list \<Rightarrow> cell list \<Rightarrow> pystr \<Rightarrow> cell list" where
  "at_label ls vs k = map snd (filter (\<lambda>p. fst p = k) (zip ls vs))"

definition field :: "pystr list \<Rightarrow> cell list \<Rightarrow> pystr \<Rightarrow> cell" where
  "field ls vs k = hd (at_label ls vs k)"

text \<open>\<open>df.empty\<close>: one of the two axes has length 0.\<close>

definition df_empty :: "dataframe \<Rightarrow> bool" where
  "df_empty df = (rows df = [] \<or> columns df = [])"

text \<open>
  \<open>df[k]\<close>: \<open>KeyError\<close> when no column has the label, the column when one has, and a frame
  of all the columns with that label when several have.
\<close>

datatype 'a selection = Column "'a list" | Frame "'a list list"

definition getitem :: "dataframe \<Rightarrow> pystr \<Rightarrow> error + cell selection" where
  "getitem df k =
     (if k \<notin> set (columns df) then Inl (KeyError k)
      else if count_list (columns df) k = 1
        then Inr (Column (map (\<lambda>r. field (columns df) r k) (rows df)))
        else Inr (Frame (map (\<lambda>r. at_label (columns df) r k) (rows df))))"

fun astype :: "cell selection \<Rightarrow> pystr selection" where
  "astype (Column cs) = Column (map astype_str cs)"
| "astype (Frame css) = Frame (map (map astype_str) css)"

text \<open>\<open>.str.lower()\<close>: only a series has the \<open>str\<close> accessor.\<close>

fun str_lower :: "pystr selection \<Rightarrow> error + pystr list" where
  "str_lower (Column ss) = Inr (map lower ss)"
| "str_lower (Frame _) = Inl AttributeError"

text \<open>\<open>df[mask]\<close>: the rows at which the mask holds.\<close>

definition bool_index :: "dataframe \<Rightarrow> bool list \<Rightarrow> dataframe" where
  "bool_index df msk = df\<lparr>rows := map fst (filter snd (zip (rows df) msk))\<rparr>"

text \<open>
  \<open>df.sample(1)\<close> draws one row; the draw is an argument of the model, and every row of the
  frame is reached by some draw. On a frame without rows it raises a \<open>ValueError\<close> (one that
  names no column). \<open>.iloc[0]\<close> is the first row as a series, and raises \<open>IndexError\<close> when
  there is none.
\<close>

definition sample :: "dataframe \<Rightarrow> nat \<Rightarrow> error + dataframe" where
  "sample df draw =
     (if rows df = [] then Inl (ValueError [])
      else Inr (df\<lparr>rows := [rows df ! (draw mod length (rows df))]\<rparr>))"

definition iloc0 :: "dataframe \<Rightarrow> error + series" where
  "iloc0 df =
     (case rows df of
        [] \<Rightarrow> Inl IndexError
      | r # _ \<Rightarrow> Inr \<lparr>index = columns df, cells = r\<rparr>)"

section \<open>Loading\<close>

definition required_cols :: "pystr list" where
  "required_cols =
     [ustr ''title'', ustr ''author'', ustr ''genre'', ustr ''mood_tag'', ustr ''energy'',
      ustr ''notes'']"

definition normalize_name :: "pystr \<Rightarrow> pystr" where
  "normalize_name c = lower (strip c)"

text \<open>
  \<open>load_books\<close> takes what \<open>pd.read_csv(CSV_PATH)\<close> gives: an error when the file cannot be
  read or parsed, or the frame.
\<close>

definition load_books :: "error + dataframe \<Rightarrow> error + dataframe" where
  "load_books read_csv =
     (case read_csv of
        Inl e \<Rightarrow> Inl e
      | Inr df0 \<Rightarrow>
          (let df = df0\<lparr>columns := map normalize_name (columns df0)\<rparr>;
               missing = filter (\<lambda>k. k \<notin> set (columns df)) required_cols
           in if missing \<noteq> [] then Inl (ValueError missing) else Inr df))"

section \<open>Selectors\<close>

definition pick_random :: "dataframe \<Rightarrow> nat \<Rightarrow> error + series option" where
  "pick_random df draw =
     (if df_empty df then Inr None
      else (case sample df draw of
              Inl e \<Rightarrow> Inl e
            | Inr one \<Rightarrow> (case iloc0 one of Inl e \<Rightarrow> Inl e | Inr s \<Rightarrow> Inr (Some s))))"

text \<open>The candidate subset of \<open>pick_by_mood\<close>.\<close>

definition mood_subset :: "dataframe \<Rightarrow> pystr \<Rightarrow> error + dataframe" where
  "mood_subset df mood_tag =
     (case getitem df (ustr ''mood_tag'') of
        Inl e \<Rightarrow> Inl e
      | Inr sel \<Rightarrow>
          (case str_lower (astype sel) of
             Inl e \<Rightarrow> Inl e
           | Inr low \<Rightarrow> Inr (bool_index df (map (\<lambda>s. s = lower mood_tag) low))))"

definition pick_by_mood :: "dataframe \<Rightarrow> pystr \<Rightarrow> nat \<Rightarrow> error + series option" where
  "pick_by_mood df mood_tag draw =
     (case mood_subset df mood_tag of
        Inl e \<Rightarrow> Inl e
      | Inr sub \<Rightarrow>
          (if df_empty sub then Inr None
           else (case sample sub draw of
                   Inl e \<Rightarrow> Inl e
                 | Inr one \<Rightarrow> (case iloc0 one of Inl e \<Rightarrow> Inl e | Inr s \<Rightarrow> Inr (Some s)))))"

section \<open>Routes\<close>

text \<open>
  \<open>book[k]\<close> on a series: \<open>KeyError\<close> when the label is absent, the cell when it occurs once, a
  sub-series when it repeats. \<open>jsonify\<close> encodes strings and the missing value (a float); it
  raises \<open>TypeError\<close> on a \<open>numpy.int64\<close>, on a \<open>numpy.bool_\<close> and on a sub-series.
\<close>

datatype pyval = Scalar cell | SubSeries "cell list"

definition series_getitem :: "series \<Rightarrow> pystr \<Rightarrow> error + pyval" where
  "series_getitem s k =
     (case at_label (index s) (cells s) k of
        [] \<Rightarrow> Inl (KeyError k)
      | [v] \<Rightarrow> Inr (Scalar v)
      | vs \<Rightarrow> Inr (SubSeries vs))"

datatype response = Response (status: nat) (body: "(pystr \<times> cell) list")

fun json_cell :: "cell \<Rightarrow> bool" where
  "json_cell (Str s) = True"
| "json_cell NaN = True"
| "json_cell (Int64 n) = False"
| "json_cell (NpBool b) = False"

fun jsonify :: "(pystr \<times> pyval) list \<Rightarrow> error + (pystr \<times> cell) list" where
  "jsonify [] = Inr []"
| "jsonify ((k, Scalar c) # kvs) =
     (if json_cell c
      then (case jsonify kvs of Inl e \<Rightarrow> Inl e | Inr b \<Rightarrow> Inr ((k, c) # b))
      else Inl TypeError)"
| "jsonify ((k, SubSeries vs) # kvs) = Inl TypeError"

definition respond :: "(pystr \<times> pyval) list \<Rightarrow> nat \<Rightarrow> error + response" where
  "respond d st = (case jsonify d of Inl e \<Rightarrow> Inl e | Inr b \<Rightarrow> Inr (Response st b))"

text \<open>
  The dictionary literal of both book routes: each entry is a key of the body and the label
  read from the row, evaluated in the order written.
\<close>

definition book_keys :: "(pystr \<times> pystr) list" where
  "book_keys =
     [(ustr ''title'', ustr ''title''), (ustr ''author'', ustr ''author''),
      (ustr ''genre'', ustr ''genre''), (ustr ''mood'', ustr ''mood_tag''),
      (ustr ''energy'', ustr ''energy''), (ustr ''notes'', ustr ''notes'')]"

fun dict_of :: "series \<Rightarrow> (pystr \<times> pystr) list \<Rightarrow> error + (pystr \<times> pyval) list" where
  "dict_of book [] = Inr []"
| "dict_of book ((key, label) # rest) =
     (case series_getitem book label of
        Inl e \<Rightarrow> Inl e
      | Inr v \<Rightarrow> (case dict_of book rest of Inl e \<Rightarrow> Inl e | Inr d \<Rightarrow> Inr ((key, v) # d)))"

definition health :: "error + response" where
  "health = respond [(ustr ''status'', Scalar (Str (ustr ''ok'')))] 200"

definition random_book :: "dataframe \<Rightarrow> nat \<Rightarrow> error + response" where
  "random_book df draw =
     (case pick_random df draw of
        Inl e \<Rightarrow> Inl e
      | Inr None \<Rightarrow> respond [(ustr ''error'', Scalar (Str (ustr ''no_books'')))] 404
      | Inr (Some book) \<Rightarrow>
          (case dict_of book book_keys of Inl e \<Rightarrow> Inl e | Inr d \<Rightarrow> respond d 200))"

text \<open>\<open>mood\<close> is \<open>request.args.get("tag")\<close>: \<open>None\<close> when the query has no \<open>tag\<close>.\<close>

definition mood_book :: "dataframe \<Rightarrow> pystr option \<Rightarrow> nat \<Rightarrow> error + response" where
  "mood_book df mood draw =
     (case mood of
        None \<Rightarrow> respond [(ustr ''error'', Scalar (Str (ustr ''missing_tag_param'')))] 400
      | Some m \<Rightarrow>
          (if m = [] then respond [(ustr ''error'', Scalar (Str (ustr ''missing_tag_param'')))] 400
           else (case pick_by_mood df m draw of
                   Inl e \<Rightarrow> Inl e
                 | Inr None \<Rightarrow>
                     respond [(ustr ''error'', Scalar (Str (ustr ''no_books_for_mood'')))] 404
                 | Inr (Some book) \<Rightarrow>
                     (case dict_of book book_keys of
                        Inl e \<Rightarrow> Inl e
                      | Inr d \<Rightarrow> respond d 200))))"

section \<open>The objects of the program\<close>

text \<open>
  Frames and series are objects: a function gets a reference to the frame, and an assignment
  such as \<open>df.columns = ...\<close> changes the object that every holder of the reference sees.
  The store lists the objects; a reference is a position in it. \<open>alloc\<close> adds a new object,
  \<open>set_columns\<close> is the assignment to \<open>df.columns\<close>.
\<close>

datatype obj = FrameObj dataframe | SeriesObj series

type_synonym store = "obj list"

definition alloc :: "store \<Rightarrow> obj \<Rightarrow> nat \<times> store" where
  "alloc h x = (length h, h @ [x])"

definition frame_at :: "store \<Rightarrow> nat \<Rightarrow> dataframe option" where
  "frame_at h a =
     (if a < length h then (case h ! a of FrameObj df \<Rightarrow> Some df | SeriesObj s \<Rightarrow> None)
      else None)"

definition series_at :: "store \<Rightarrow> nat \<Rightarrow> series option" where
  "series_at h a =
     (if a < length h then (case h ! a of FrameObj df \<Rightarrow> None | SeriesObj s \<Rightarrow> Some s)
      else None)"

definition set_columns :: "store \<Rightarrow> nat \<Rightarrow> pystr list \<Rightarrow> store" where
  "set_columns h a cs =
     (case frame_at h a of
        None \<Rightarrow> h
      | Some df \<Rightarrow> h[a := FrameObj (df\<lparr>columns := cs\<rparr>)])"

text \<open>
  \<open>load_books\<close> on the store: \<open>read_csv\<close> makes the frame object, the assignment to
  \<open>df.columns\<close> changes it in place, and the reference to it is returned.
\<close>

definition load_books_st :: "error + dataframe \<Rightarrow> store \<Rightarrow> (error + nat) \<times> store" where
  "load_books_st read_csv h =
     (case read_csv of
        Inl e \<Rightarrow> (Inl e, h)
      | Inr df0 \<Rightarrow>
          (let (a, h1) = alloc h (FrameObj df0);
               h2 = set_columns h1 a (map normalize_name (columns df0))
           in (case frame_at h2 a of
                 None \<Rightarrow> (Inl TypeError, h2)
               | Some df \<Rightarrow>
                   (let missing = filter (\<lambda>k. k \<notin> set (columns df)) required_cols
                    in if missing \<noteq> [] then (Inl (ValueError missing), h2) else (Inr a, h2)))))"

text \<open>
  The selectors on the store. \<open>df.sample(1)\<close>, \<open>df[mask]\<close> and \<open>.iloc[0]\<close> each make a new
  object; the result is a reference to the row picked. A reference that holds no frame gives
  \<open>TypeError\<close>.
\<close>

definition sample_iloc0_st :: "dataframe \<Rightarrow> nat \<Rightarrow> store \<Rightarrow> (error + nat option) \<times> store" where
  "sample_iloc0_st df draw h =
     (case sample df draw of
        Inl e \<Rightarrow> (Inl e, h)
      | Inr one \<Rightarrow>
          (let (b, h1) = alloc h (FrameObj one)
           in (case iloc0 one of
                 Inl e \<Rightarrow> (Inl e, h1)
               | Inr s \<Rightarrow> (let (c, h2) = alloc h1 (SeriesObj s) in (Inr (Some c), h2)))))"

definition pick_random_st :: "store \<Rightarrow> nat \<Rightarrow> nat \<Rightarrow> (error + nat option) \<times> store" where
  "pick_random_st h a draw =
     (case frame_at h a of
        None \<Rightarrow> (Inl TypeError, h)
      | Some df \<Rightarrow> if df_empty df then (Inr None, h) else sample_iloc0_st df draw h)"

definition pick_by_mood_st ::
  "store \<Rightarrow> nat \<Rightarrow> pystr \<Rightarrow> nat \<Rightarrow> (error + nat option) \<times> store" where
  "pick_by_mood_st h a mood_tag draw =
     (case frame_at h a of
        None \<Rightarrow> (Inl TypeError, h)
      | Some df \<Rightarrow>
          (case mood_subset df mood_tag of
             Inl e \<Rightarrow> (Inl e, h)
           | Inr sub \<Rightarrow>
               (let (b, h1) = alloc h (FrameObj sub)
                in if df_empty sub then (Inr None, h1) else sample_iloc0_st sub draw h1)))"

text \<open>The handlers on the store: they read the row that the selector returned.\<close>

definition book_response_st :: "store \<Rightarrow> nat \<Rightarrow> error + response" where
  "book_response_st h b =
     (case series_at h b of
        None \<Rightarrow> Inl TypeError
      | Some book \<Rightarrow>
          (case dict_of book book_keys of Inl e \<Rightarrow> Inl e | Inr d \<Rightarrow> respond d 200))"

definition random_book_st :: "store \<Rightarrow> nat \<Rightarrow> nat \<Rightarrow> (error + response) \<times> store" where
  "random_book_st h a draw =
     (case pick_random_st h a draw of
        (Inl e, h1) \<Rightarrow> (Inl e, h1)
      | (Inr None, h1) \<Rightarrow>
          (respond [(ustr ''error'', Scalar (Str (ustr ''no_books'')))] 404, h1)
      | (Inr (Some b), h1) \<Rightarrow> (book_response_st h1 b, h1))"

definition mood_book_st ::
  "store \<Rightarrow> nat \<Rightarrow> pystr option \<Rightarrow> nat \<Rightarrow> (error + response) \<times> store" where
  "mood_book_st h a mood draw =
     (case mood of
        None \<Rightarrow> (respond [(ustr ''error'', Scalar (Str (ustr ''missing_tag_param'')))] 400, h)
      | Some m \<Rightarrow>
          (if m = []
           then (respond [(ustr ''error'', Scalar (Str (ustr ''missing_tag_param'')))] 400, h)
           else (case pick_by_mood_st h a m draw of
                   (Inl e, h1) \<Rightarrow> (Inl e, h1)
                 | (Inr None, h1) \<Rightarrow>
                     (respond [(ustr ''error'', Scalar (Str (ustr ''no_books_for_mood'')))] 404,
                      h1)
                 | (Inr (Some b), h1) \<Rightarrow> (book_response_st h1 b, h1))))"

section \<open>The server\<close>

text \<open>
  The module holds the reference to the loaded frame in \<open>BOOKS_DF\<close>. A request is served with
  the draw its selector makes; an unhandled exception of a handler is the \<open>Inl\<close> outcome of
  that request.
\<close>

record app =
  objects :: store
  BOOKS_DF :: nat

datatype request = GetHealth | GetRandom | GetMood "pystr option"

definition start :: "error + dataframe \<Rightarrow> error + app" where
  "start read_csv =
     (case load_books_st read_csv [] of
        (Inl e, h) \<Rightarrow> Inl e
      | (Inr a, h) \<Rightarrow> Inr \<lparr>objects = h, BOOKS_DF = a\<rparr>)"

fun serve :: "app \<Rightarrow> request \<Rightarrow> nat \<Rightarrow> (error + response) \<times> app" where
  "serve w GetHealth draw = (health, w)"
| "serve w GetRandom draw =
     (let (out, h) = random_book_st (objects w) (BOOKS_DF w) draw in (out, w\<lparr>objects := h\<rparr>))"
| "serve w (GetMood mood) draw =
     (let (out, h) = mood_book_st (objects w) (BOOKS_DF w) mood draw
      in (out, w\<lparr>objects := h\<rparr>))"

fun serve_all :: "app \<Rightarrow> (request \<times> nat) list \<Rightarrow> (error + response) list \<times> app" where
  "serve_all w [] = ([], w)"
| "serve_all w ((req, draw) # rest) =
     (let (out, w') = serve w req draw; (outs, w'') = serve_all w' rest
      in (out # outs, w''))"

definition run ::
  "error + dataframe \<Rightarrow> (request \<times> nat) list \<Rightarrow> error + (error + response) list" where
  "run read_csv reqs =
     (case start read_csv of Inl e \<Rightarrow> Inl e | Inr w \<Rightarrow> Inr (fst (serve_all w reqs)))"

section \<open>The properties in the specification's terms\<close>

text \<open>
  A row matches a tag when its \<open>mood_tag\<close> cell, converted to text and lowercased, equals
  the lowercased tag.
\<close>

definition mood_matches :: "dataframe \<Rightarrow> pystr \<Rightarrow> cell list \<Rightarrow> bool" where
  "mood_matches df tag r =
     (lower (astype_str (field (columns df) r (ustr ''mood_tag''))) = lower tag)"



text \<open>The body of a book response: the six fields of a row, \<open>mood\<close> taken from \<open>mood_tag\<close>.\<close>

definition book_body :: "pystr list \<Rightarrow> cell list \<Rightarrow> (pystr \<times> cell) list" where
  "book_body ls r =
     [(ustr ''title'', field ls r (ustr ''title'')),
      (ustr ''author'', field ls r (ustr ''author'')),
      (ustr ''genre'', field ls r (ustr ''genre'')),
      (ustr ''mood'', field ls r (ustr ''mood_tag'')),
      (ustr ''energy'', field ls r (ustr ''energy'')),
      (ustr ''notes'', field ls r (ustr ''notes''))]"


text \<open>
  A result of a selector on the store agrees with a result of the selector on the frame: the
  same exception, or \<open>None\<close> both, or a reference to the row that the other holds.
\<close>

fun points_to :: "store \<Rightarrow> error + nat option \<Rightarrow> error + series option \<Rightarrow> bool" where
  "points_to h (Inl e) r = (r = Inl e)"
| "points_to h (Inr None) r = (r = Inr None)"
| "points_to h (Inr (Some c)) r =
     (case series_at h c of None \<Rightarrow> False | Some s \<Rightarrow> r = Inr (Some s))"

section \<open>Example tables\<close>

definition text_row :: "string list \<Rightarrow> cell list" where
  "text_row ss = map (\<lambda>s. Str (ustr s)) ss"

definition dune_table :: dataframe where
  "dune_table =
     \<lparr>columns = map ustr [''title'', ''author'', ''genre'', ''mood_tag'', ''energy'', ''notes''],
      rows = [text_row [''Dune'', ''Herbert'', ''SciFi'', ''Epic'', ''High'', ''Classic'']]\<rparr>"

definition shelf :: dataframe where
  "shelf =
     \<lparr>columns = map ustr [''title'', ''author'', ''genre'', ''mood_tag'', ''energy'', ''notes''],
      rows = [text_row [''Dune'', ''Herbert'', ''SciFi'', ''Epic'', ''High'', ''Classic''],
              text_row [''Emma'', ''Austen'', ''Romance'', ''Happy'', ''Low''] @ [NaN],
              text_row [''Heidi'', ''Spyri'', ''Children'', ''happy'', ''Low'', ''Alps'']]\<rparr>"

definition spaced_header :: dataframe where
  "spaced_header =
     \<lparr>columns = map ustr ['' Title '', ''AUTHOR'', ''Genre'', ''Mood_Tag'', ''energy  '',
        ''Notes'', ''isbn''],
      rows = []\<rparr>"

definition no_genre :: dataframe where
  "no_genre =
     \<lparr>columns = map ustr [''title'', ''author'', ''mood_tag'', ''energy'', ''notes''],
      rows = [text_row [''Dune'', ''Herbert'', ''Epic'', ''High'', ''Classic'']]\<rparr>"

text \<open>
  Two files whose headers hold two names that normalize to the same label, and the frames
  loaded from them.
\<close>

definition twin_mood_file :: dataframe where
  "twin_mood_file =
     \<lparr>columns = map ustr [''title'', ''author'', ''genre'', ''Mood_Tag'', ''mood_tag'', ''energy'',
        ''notes''],
      rows = [text_row [''Dune'', ''Herbert'', ''SciFi'', ''Epic'', ''Grand'', ''High'',
        ''Classic'']]\<rparr>"

definition twin_mood :: dataframe where
  "twin_mood =
     \<lparr>columns = map ustr [''title'', ''author'', ''genre'', ''mood_tag'', ''mood_tag'', ''energy'',
        ''notes''],
      rows = [text_row [''Dune'', ''Herbert'', ''SciFi'', ''Epic'', ''Grand'', ''High'',
        ''Classic'']]\<rparr>"








section \<open>Lemmas about frames, selectors and handlers\<close>

lemma ustr_eq_iff: "ustr a = ustr b \<longleftrightarrow> a = b"
  by (simp add: ustr_def inj_map_eq_map inj_on_def)

lemma length_at_label:
  "length ls = length vs \<Longrightarrow> length (at_label ls vs k) = count_list ls k"
  by (induction ls vs rule: list_induct2) (auto simp: at_label_def)

lemma at_label_single:
  assumes "length ls = length vs" and "count_list ls k = 1"
  shows "at_label ls vs k = [field ls vs k]"
proof -
  have "length (at_label ls vs k) = 1"
    using assms by (simp add: length_at_label)
  then obtain c where "at_label ls vs k = [c]"
    by (cases "at_label ls vs k") auto
  then show ?thesis by (simp add: field_def)
qed

lemma at_label_Nil:
  "length ls = length vs \<Longrightarrow> at_label ls vs k = [] \<Longrightarrow> k \<notin> set ls"
  using length_at_label [of ls vs k] by (auto simp: count_list_0_iff)

lemma mask_filter: "map fst (filter snd (zip rs (map g rs))) = filter g rs"
  by (induction rs) auto

lemma mood_subset_unique:
  assumes "count_list (columns df) (ustr ''mood_tag'') = 1"
  shows "mood_subset df tag = Inr (df\<lparr>rows := filter (mood_matches df tag) (rows df)\<rparr>)"
proof -
  have "(ustr ''mood_tag'') \<in> set (columns df)"
    using assms by (metis count_list_0_iff zero_neq_one)
  moreover have "(\<lambda>r. lower (astype_str (field (columns df) r (ustr ''mood_tag''))) = lower tag)
      = mood_matches df tag"
    by (simp add: mood_matches_def fun_eq_iff)
  ultimately show ?thesis using assms
    by (simp add: mood_subset_def getitem_def bool_index_def comp_def mask_filter)
qed

lemma pick_random_eval:
  assumes "columns df \<noteq> []"
  shows "pick_random df draw =
    (if rows df = [] then Inr None
     else Inr (Some \<lparr>index = columns df, cells = rows df ! (draw mod length (rows df))\<rparr>))"
  using assms by (simp add: pick_random_def df_empty_def sample_def iloc0_def)

lemma pick_by_mood_eval:
  assumes "count_list (columns df) (ustr ''mood_tag'') = 1"
  shows "pick_by_mood df tag draw =
    (let sub = filter (mood_matches df tag) (rows df)
     in if sub = [] then Inr None
        else Inr (Some \<lparr>index = columns df, cells = sub ! (draw mod length sub)\<rparr>))"
proof -
  have "columns df \<noteq> []"
    using assms by auto
  then show ?thesis
    by (simp add: pick_by_mood_def mood_subset_unique [OF assms] df_empty_def sample_def
        iloc0_def Let_def)
qed

lemma series_getitem_single:
  assumes "length ls = length r" and "count_list ls k = 1"
  shows "series_getitem \<lparr>index = ls, cells = r\<rparr> k = Inr (Scalar (field ls r k))"
  by (simp add: series_getitem_def at_label_single [OF assms])





lemma frame_ok_row: "frame_ok df \<Longrightarrow> r \<in> set (rows df) \<Longrightarrow> length (columns df) = length r"
  by (simp add: frame_ok_def list_all_iff)





lemma pick_random_row:
  "pick_random df draw = Inr (Some s) \<Longrightarrow> index s = columns df \<and> cells s \<in> set (rows df)"
  by (auto simp: pick_random_def df_empty_def sample_def iloc0_def split: if_splits)

lemma pick_random_returns: "\<exists>res. pick_random df draw = Inr res"
  by (simp add: pick_random_def df_empty_def sample_def iloc0_def)

lemma pick_by_mood_Inr:
  "pick_by_mood df tag draw = Inr res \<Longrightarrow> count_list (columns df) (ustr ''mood_tag'') = 1"
  by (auto simp: pick_by_mood_def mood_subset_def getitem_def split: sum.splits if_splits)

lemma pick_by_mood_Inl:
  "pick_by_mood df tag draw = Inl e \<Longrightarrow>
     e = KeyError (ustr ''mood_tag'') \<and> (ustr ''mood_tag'') \<notin> set (columns df) \<or> e = AttributeError"
  by (auto simp: pick_by_mood_def mood_subset_def getitem_def df_empty_def bool_index_def
      sample_def iloc0_def split: sum.splits if_splits list.splits)

lemma pick_by_mood_row:
  assumes "pick_by_mood df tag draw = Inr (Some s)"
  shows "index s = columns df \<and> cells s \<in> set (rows df) \<and> mood_matches df tag (cells s)"
proof -
  let ?sub = "filter (mood_matches df tag) (rows df)"
  have one: "count_list (columns df) (ustr ''mood_tag'') = 1"
    using assms by (rule pick_by_mood_Inr)
  from assms have ne: "?sub \<noteq> []"
    and eq: "s = \<lparr>index = columns df, cells = ?sub ! (draw mod length ?sub)\<rparr>"
    by (auto simp: pick_by_mood_eval [OF one] Let_def split: if_splits)
  have "draw mod length ?sub < length ?sub"
    using ne by simp
  then have "?sub ! (draw mod length ?sub) \<in> set ?sub"
    by (rule nth_mem)
  then show ?thesis
    by (simp add: eq)
qed

lemma series_getitem_Inl:
  "series_getitem s k = Inl e \<Longrightarrow> e = KeyError k \<and> at_label (index s) (cells s) k = []"
  by (auto simp: series_getitem_def split: list.splits)

lemma series_getitem_Scalar:
  "series_getitem s k = Inr (Scalar c) \<Longrightarrow> field (index s) (cells s) k = c"
  by (auto simp: series_getitem_def field_def split: list.splits)

lemma series_no_key_error:
  assumes "length (index s) = length (cells s)" and "k \<in> set (index s)"
  shows "series_getitem s k \<noteq> Inl e"
proof
  assume "series_getitem s k = Inl e"
  then have "at_label (index s) (cells s) k = []"
    by (auto dest: series_getitem_Inl)
  then have "k \<notin> set (index s)"
    by (rule at_label_Nil [OF assms(1)])
  with assms(2) show False by simp
qed

lemma dict_of_Inl:
  "dict_of s kvs = Inl e \<Longrightarrow> \<exists>kl \<in> set kvs. series_getitem s (snd kl) = Inl e"
  by (induction kvs) (auto split: sum.splits)

lemma dict_of_Inr:
  "dict_of s kvs = Inr d \<Longrightarrow>
     list_all2 (\<lambda>kl kv. fst kv = fst kl \<and> series_getitem s (snd kl) = Inr (snd kv)) kvs d"
  by (induction kvs arbitrary: d) (auto split: sum.splits)

lemma jsonify_Inl: "jsonify d = Inl e \<Longrightarrow> e = TypeError"
  by (induction d arbitrary: e rule: jsonify.induct) (auto split: sum.splits if_splits)

lemma jsonify_Inr:
  "jsonify d = Inr b \<Longrightarrow> list_all2 (\<lambda>kv kc. fst kc = fst kv \<and> snd kv = Scalar (snd kc)) d b"
  by (induction d arbitrary: b rule: jsonify.induct) (auto split: sum.splits if_splits)

lemma respond_Inl: "respond d st = Inl e \<Longrightarrow> e = TypeError"
  by (auto simp: respond_def split: sum.splits dest: jsonify_Inl)

lemma respond_Inr: "respond d st = Inr (Response st' b) \<Longrightarrow> st' = st \<and> jsonify d = Inr b"
  by (auto simp: respond_def split: sum.splits)

lemma book_dict_body:
  assumes "dict_of s book_keys = Inr d" and "jsonify d = Inr b"
  shows "b = book_body (index s) (cells s)"
proof -
  have "list_all2 (\<lambda>kl kc. fst kc = fst kl \<and> series_getitem s (snd kl) = Inr (Scalar (snd kc)))
      book_keys b"
    using list_all2_trans [OF _ dict_of_Inr [OF assms(1)] jsonify_Inr [OF assms(2)],
      of "\<lambda>kl kc. fst kc = fst kl \<and> series_getitem s (snd kl) = Inr (Scalar (snd kc))"]
    by simp
  then show ?thesis
    by (auto simp: book_keys_def book_body_def list_all2_Cons1 dest!: series_getitem_Scalar)
qed

lemma book_dict_no_key_error:
  assumes "length (index s) = length (cells s)" and "set required_cols \<subseteq> set (index s)"
  shows "(case dict_of s book_keys of Inl e \<Rightarrow> Inl e | Inr d \<Rightarrow> respond d st) \<noteq> Inl (KeyError k)"
proof (cases "dict_of s book_keys")
  case (Inl e)
  then obtain kl where kl: "kl \<in> set book_keys" and g: "series_getitem s (snd kl) = Inl e"
    by (auto dest: dict_of_Inl)
  from kl have "snd kl \<in> set required_cols"
    by (auto simp: book_keys_def required_cols_def)
  then have "snd kl \<in> set (index s)"
    using assms(2) by blast
  then have "series_getitem s (snd kl) \<noteq> Inl e"
    by (rule series_no_key_error [OF assms(1)])
  with g show ?thesis by simp
next
  case (Inr d)
  then show ?thesis by (auto dest: respond_Inl)
qed

lemma mood_book_200:
  assumes "mood_book df q draw = Inr (Response 200 b)"
  shows "\<exists>tag s d. q = Some tag \<and> tag \<noteq> [] \<and> pick_by_mood df tag draw = Inr (Some s) \<and>
           dict_of s book_keys = Inr d \<and> jsonify d = Inr b"
  using assms
  by (auto simp: mood_book_def respond_def split: option.splits if_splits sum.splits)

lemma load_books_Inr:
  "load_books (Inr df) =
     (if set required_cols \<subseteq> set (map normalize_name (columns df))
      then Inr (df\<lparr>columns := map normalize_name (columns df)\<rparr>)
      else Inl (ValueError (filter (\<lambda>k. k \<notin> set (map normalize_name (columns df))) required_cols)))"
  by (auto simp: load_books_def Let_def filter_empty_conv)

lemma load_books_columns:
  "load_books r = Inr df \<Longrightarrow> set required_cols \<subseteq> set (columns df)"
  by (cases r) (auto simp: load_books_def Let_def filter_empty_conv split: if_splits)

subsection \<open>The store\<close>

lemma prefix_alloc: "prefix h (snd (alloc h x))"
  by (simp add: alloc_def)

lemma prefix_frame_at: "prefix h h' \<Longrightarrow> frame_at h a = Some df \<Longrightarrow> frame_at h' a = Some df"
  by (auto simp: frame_at_def prefix_def nth_append split: if_splits)

lemma frame_at_alloc: "frame_at (snd (alloc h (FrameObj df))) (fst (alloc h (FrameObj df))) = Some df"
  by (simp add: alloc_def frame_at_def)

lemma sample_iloc0_st_prefix: "prefix h (snd (sample_iloc0_st df draw h))"
  by (auto simp: sample_iloc0_st_def alloc_def prefix_def split: sum.splits)

lemma pick_random_st_prefix: "prefix h (snd (pick_random_st h a draw))"
  by (simp add: pick_random_st_def sample_iloc0_st_prefix split: option.splits)

lemma pick_by_mood_st_prefix: "prefix h (snd (pick_by_mood_st h a tag draw))"
proof -
  have "prefix h (snd (sample_iloc0_st sub draw (h @ [x])))" for sub x
    using sample_iloc0_st_prefix [of "h @ [x]" sub draw] by (auto simp: prefix_def)
  then show ?thesis
    by (auto simp: pick_by_mood_st_def alloc_def split: option.splits sum.splits)
qed

lemma random_book_st_prefix: "prefix h (snd (random_book_st h a draw))"
  using pick_random_st_prefix [of h a draw]
  by (auto simp: random_book_st_def split: prod.splits sum.splits option.splits)

lemma mood_book_st_prefix: "prefix h (snd (mood_book_st h a mood draw))"
proof (cases mood)
  case None
  then show ?thesis by (simp add: mood_book_st_def)
next
  case (Some m)
  obtain r h1 where p: "pick_by_mood_st h a m draw = (r, h1)"
    by (cases "pick_by_mood_st h a m draw")
  with pick_by_mood_st_prefix [of h a m draw] have "prefix h h1" by simp
  then show ?thesis
    using Some p by (auto simp: mood_book_st_def split: sum.splits option.splits)
qed

lemma sample_iloc0_st_result:
  "points_to (snd (sample_iloc0_st df draw h)) (fst (sample_iloc0_st df draw h))
     (case sample df draw of
        Inl e \<Rightarrow> Inl e
      | Inr one \<Rightarrow> (case iloc0 one of Inl e \<Rightarrow> Inl e | Inr s \<Rightarrow> Inr (Some s)))"
  by (auto simp: sample_iloc0_st_def alloc_def series_at_def nth_append split: sum.splits)

lemma pick_random_st_result:
  assumes "frame_at h a = Some df"
  shows "points_to (snd (pick_random_st h a draw)) (fst (pick_random_st h a draw))
     (pick_random df draw)"
  using assms sample_iloc0_st_result [of df draw h]
  by (simp add: pick_random_st_def pick_random_def)

lemma pick_by_mood_st_result:
  assumes "frame_at h a = Some df"
  shows "points_to (snd (pick_by_mood_st h a tag draw)) (fst (pick_by_mood_st h a tag draw))
     (pick_by_mood df tag draw)"
proof (cases "mood_subset df tag")
  case (Inl e)
  then show ?thesis using assms by (simp add: pick_by_mood_st_def pick_by_mood_def)
next
  case (Inr sub)
  then show ?thesis
    using assms sample_iloc0_st_result [of sub draw "h @ [FrameObj sub]"]
    by (simp add: pick_by_mood_st_def pick_by_mood_def alloc_def)
qed

lemma book_response_points_to:
  assumes "points_to h r p"
  shows "(case r of
            Inl e \<Rightarrow> Inl e
          | Inr None \<Rightarrow> respond d 404
          | Inr (Some b) \<Rightarrow> book_response_st h b) =
         (case p of
            Inl e \<Rightarrow> Inl e
          | Inr None \<Rightarrow> respond d 404
          | Inr (Some book) \<Rightarrow>
              (case dict_of book book_keys of Inl e \<Rightarrow> Inl e | Inr d \<Rightarrow> respond d 200))"
  using assms
  by (cases r) (auto simp: book_response_st_def split: option.splits)

lemma random_book_st_result:
  assumes "frame_at h a = Some df"
  shows "fst (random_book_st h a draw) = random_book df draw"
  using book_response_points_to [OF pick_random_st_result [OF assms, of draw]]
  by (auto simp: random_book_st_def random_book_def split: prod.splits sum.splits option.splits)

lemma mood_book_st_result:
  assumes "frame_at h a = Some df"
  shows "fst (mood_book_st h a mood draw) = mood_book df mood draw"
proof (cases mood)
  case None
  then show ?thesis by (simp add: mood_book_st_def mood_book_def)
next
  case (Some m)
  show ?thesis
    using book_response_points_to [OF pick_by_mood_st_result [OF assms, of m draw]] Some
    by (auto simp: mood_book_st_def mood_book_def split: prod.splits sum.splits option.splits)
qed

lemma start_load:
  "start r = (case load_books r of Inl e \<Rightarrow> Inl e
              | Inr df \<Rightarrow> Inr \<lparr>objects = [FrameObj df], BOOKS_DF = 0\<rparr>)"
  by (cases r)
    (auto simp: start_def load_books_st_def load_books_def alloc_def set_columns_def
      frame_at_def Let_def)

lemma run_load_error: "load_books r = Inl e \<Longrightarrow> run r reqs = Inl e"
  by (simp add: run_def start_load)

lemma serve_prefix:
  "prefix (objects w) (objects (snd (serve w req draw))) \<and>
   BOOKS_DF (snd (serve w req draw)) = BOOKS_DF w"
proof (cases req)
  case GetHealth
  then show ?thesis by simp
next
  case GetRandom
  then show ?thesis
    using random_book_st_prefix [of "objects w" "BOOKS_DF w" draw]
    by (auto split: prod.splits)
next
  case (GetMood mood)
  then show ?thesis
    using mood_book_st_prefix [of "objects w" "BOOKS_DF w" mood draw]
    by (auto split: prod.splits)
qed

lemma serve_all_prefix:
  "prefix (objects w) (objects (snd (serve_all w reqs))) \<and>
   BOOKS_DF (snd (serve_all w reqs)) = BOOKS_DF w"
proof (induction reqs arbitrary: w)
  case Nil
  show ?case by simp
next
  case (Cons p reqs)
  obtain req draw where p: "p = (req, draw)" by (cases p)
  obtain out w' where s: "serve w req draw = (out, w')" by (cases "serve w req draw")
  obtain outs w'' where r: "serve_all w' reqs = (outs, w'')" by (cases "serve_all w' reqs")
  from serve_prefix [of w req draw] s
  have 1: "prefix (objects w) (objects w')" and 2: "BOOKS_DF w' = BOOKS_DF w" by simp_all
  from Cons.IH [of w'] r
  have 3: "prefix (objects w') (objects w'')" and 4: "BOOKS_DF w'' = BOOKS_DF w'" by simp_all
  from 1 3 have "prefix (objects w) (objects w'')" by (rule prefix_order.trans)
  then show ?case using 2 4 by (simp add: p s r)
qed

lemma serve_result:
  assumes "frame_at (objects w) (BOOKS_DF w) = Some df"
  shows "fst (serve w GetHealth draw) = health \<and>
         fst (serve w GetRandom draw) = random_book df draw \<and>
         fst (serve w (GetMood mood) draw) = mood_book df mood draw"
  using random_book_st_result [OF assms, of draw] mood_book_st_result [OF assms, of mood draw]
  by (auto split: prod.splits)

subsection \<open>Lowercasing\<close>





section \<open>The claims\<close>

text \<open>
  C1. On a table whose rows have one cell per column and one \<open>mood_tag\<close> column,
  \<open>pick_by_mood\<close> returns \<open>None\<close> exactly when no row matches the tag (equality of the
  lowercased texts, so a proper prefix of a stored tag does not match); it never raises; and
  a row it returns is a row of the table that matches the tag.
\<close>

theorem pick_by_mood_matches:
  assumes "frame_ok df" and "count_list (columns df) (ustr ''mood_tag'') = 1"
  shows "(pick_by_mood df tag draw = Inr None \<longleftrightarrow>
            \<not> (\<exists>r \<in> set (rows df). mood_matches df tag r)) \<and>
         (\<exists>res. pick_by_mood df tag draw = Inr res) \<and>
         (\<forall>s. pick_by_mood df tag draw = Inr (Some s) \<longrightarrow>
            index s = columns df \<and> cells s \<in> set (rows df) \<and>
            mood_matches df tag (cells s) \<and>
            series_getitem s (ustr ''mood_tag'') =
              Inr (Scalar (field (columns df) (cells s) (ustr ''mood_tag''))))"
proof -
  let ?sub = "filter (mood_matches df tag) (rows df)"
  have ev: "pick_by_mood df tag draw =
      (if ?sub = [] then Inr None
       else Inr (Some \<lparr>index = columns df, cells = ?sub ! (draw mod length ?sub)\<rparr>))"
    by (simp add: pick_by_mood_eval [OF assms(2)] Let_def)
  have none: "pick_by_mood df tag draw = Inr None \<longleftrightarrow>
      \<not> (\<exists>r \<in> set (rows df). mood_matches df tag r)"
    by (simp add: ev filter_empty_conv)
  have some: "\<exists>res. pick_by_mood df tag draw = Inr res"
    by (simp add: ev)
  have row: "index s = columns df \<and> cells s \<in> set (rows df) \<and>
      mood_matches df tag (cells s) \<and>
      series_getitem s (ustr ''mood_tag'') = Inr (Scalar (field (columns df) (cells s) (ustr ''mood_tag'')))"
    if s: "pick_by_mood df tag draw = Inr (Some s)" for s
  proof -
    from s have ne: "?sub \<noteq> []" and eq: "s = \<lparr>index = columns df, cells = ?sub ! (draw mod length ?sub)\<rparr>"
      by (auto simp: ev split: if_splits)
    have "draw mod length ?sub < length ?sub"
      using ne by simp
    then have "?sub ! (draw mod length ?sub) \<in> set ?sub"
      by (rule nth_mem)
    then have mem: "cells s \<in> set (rows df)" and m: "mood_matches df tag (cells s)"
      by (simp_all add: eq)
    have len: "length (columns df) = length (cells s)"
      by (rule frame_ok_row [OF assms(1) mem])
    have "series_getitem \<lparr>index = columns df, cells = cells s\<rparr> (ustr ''mood_tag'') =
        Inr (Scalar (field (columns df) (cells s) (ustr ''mood_tag'')))"
      by (rule series_getitem_single [OF len assms(2)])
    then show ?thesis
      using mem m by (simp add: eq)
  qed
  from none some row show ?thesis by blast
qed

theorem pick_by_mood_matches_witness:
  "frame_ok shelf \<and> count_list (columns shelf) (ustr ''mood_tag'') = 1 \<and>
   (\<exists>r \<in> set (rows shelf). mood_matches shelf (ustr ''HAPPY'') r) \<and>
   (\<exists>s. pick_by_mood shelf (ustr ''HAPPY'') 1 = Inr (Some s) \<and> mood_matches shelf (ustr ''HAPPY'') (cells s)) \<and>
   \<not> (\<exists>r \<in> set (rows shelf). mood_matches shelf (ustr ''Hap'') r) \<and>
   pick_by_mood shelf (ustr ''Hap'') 1 = Inr None"
proof -
  have f: "frame_ok shelf" by code_simp
  have c: "count_list (columns shelf) (ustr ''mood_tag'') = 1" by code_simp
  have m: "\<exists>r \<in> set (rows shelf). mood_matches shelf (ustr ''HAPPY'') r" by code_simp
  have n: "\<not> (\<exists>r \<in> set (rows shelf). mood_matches shelf (ustr ''Hap'') r)" by code_simp
  note a = pick_by_mood_matches [OF f c, of "(ustr ''HAPPY'')" 1]
  note b = pick_by_mood_matches [OF f c, of "(ustr ''Hap'')" 1]
  have 1: "\<exists>s. pick_by_mood shelf (ustr ''HAPPY'') 1 = Inr (Some s) \<and>
      mood_matches shelf (ustr ''HAPPY'') (cells s)"
  proof -
    from a m have nn: "pick_by_mood shelf (ustr ''HAPPY'') 1 \<noteq> Inr None" by blast
    from a obtain res where r: "pick_by_mood shelf (ustr ''HAPPY'') 1 = Inr res" by blast
    with nn obtain s where "res = Some s" by (cases res) auto
    with r a show ?thesis by blast
  qed
  have 2: "pick_by_mood shelf (ustr ''Hap'') 1 = Inr None"
    using b n by blast
  from f c m n 1 2 show ?thesis by blast
qed

text \<open>
  C1, without the condition on the \<open>mood_tag\<close> column: a file with the headers \<open>Mood_Tag\<close> and
  \<open>mood_tag\<close> loads, both columns get the label \<open>mood_tag\<close>, and \<open>pick_by_mood\<close> raises
  \<open>AttributeError\<close> for a tag that a row carries and for one that no row carries.
\<close>

theorem pick_by_mood_repeated_label:
  "load_books (Inr twin_mood_file) = Inr twin_mood \<and> frame_ok twin_mood \<and>
   pick_by_mood twin_mood (ustr ''epic'') 0 = Inl AttributeError \<and>
   pick_by_mood twin_mood (ustr ''calm'') 0 = Inl AttributeError"
  by code_simp

text \<open>
  C2. On a table with at least one column, \<open>pick_random\<close> returns \<open>None\<close> exactly when the
  table has no rows, and on a table with rows it returns one of them.
\<close>

theorem pick_random_member:
  assumes "columns df \<noteq> []"
  shows "(pick_random df draw = Inr None \<longleftrightarrow> rows df = []) \<and>
         (rows df \<noteq> [] \<longrightarrow>
            (\<exists>s. pick_random df draw = Inr (Some s) \<and> index s = columns df \<and>
                 cells s \<in> set (rows df)))"
  using assms by (simp add: pick_random_eval)

theorem pick_random_member_witness:
  "columns shelf \<noteq> [] \<and> rows shelf \<noteq> [] \<and> pick_random shelf 4 \<noteq> Inr None \<and>
   (\<exists>s. pick_random shelf 4 = Inr (Some s) \<and> cells s \<in> set (rows shelf)) \<and>
   pick_random (shelf\<lparr>rows := []\<rparr>) 4 = Inr None"
proof -
  have c: "columns shelf \<noteq> []" by (simp add: shelf_def)
  have c': "columns (shelf\<lparr>rows := []\<rparr>) \<noteq> []" by (simp add: shelf_def)
  have r: "rows shelf \<noteq> []" by (simp add: shelf_def)
  show ?thesis
    using pick_random_member [OF c, of 4] pick_random_member [OF c', of 4] c r by auto
qed

text \<open>
  C3. Loading succeeds exactly when the file is read and, after stripping and lowercasing
  every column name, the six required names are all among the column names; the loaded
  table is the frame read, with the normalized names. When a required name is absent,
  \<open>load_books\<close> raises a \<open>ValueError\<close> that names the absent columns, and the server does
  not start: no request is served.
\<close>

theorem load_books_required_columns:
  "((\<exists>df'. load_books r = Inr df') \<longleftrightarrow>
      (\<exists>df. r = Inr df \<and> set required_cols \<subseteq> set (map normalize_name (columns df)))) \<and>
   (\<forall>df. r = Inr df \<and> set required_cols \<subseteq> set (map normalize_name (columns df)) \<longrightarrow>
      load_books r = Inr (df\<lparr>columns := map normalize_name (columns df)\<rparr>)) \<and>
   (\<forall>df. r = Inr df \<and> \<not> set required_cols \<subseteq> set (map normalize_name (columns df)) \<longrightarrow>
      (\<exists>missing. missing \<noteq> [] \<and>
         set missing = set required_cols - set (map normalize_name (columns df)) \<and>
         load_books r = Inl (ValueError missing) \<and>
         (\<forall>reqs. run r reqs = Inl (ValueError missing))))"
proof (cases r)
  case (Inl e)
  then show ?thesis by (simp add: load_books_def)
next
  case (Inr df)
  let ?m = "filter (\<lambda>k. k \<notin> set (map normalize_name (columns df))) required_cols"
  show ?thesis
  proof (cases "set required_cols \<subseteq> set (map normalize_name (columns df))")
    case True
    then show ?thesis using Inr by (simp add: load_books_Inr)
  next
    case False
    then have l: "load_books r = Inl (ValueError ?m)"
      using Inr by (simp add: load_books_Inr)
    have ne: "?m \<noteq> []"
      using False by (auto simp: filter_empty_conv)
    have s: "set ?m = set required_cols - set (map normalize_name (columns df))"
      by auto
    have "\<forall>reqs. run r reqs = Inl (ValueError ?m)"
      using l by (simp add: run_load_error)
    with l ne s False Inr show ?thesis by auto
  qed
qed

theorem load_books_required_columns_witness:
  "set required_cols \<subseteq> set (map normalize_name (columns spaced_header)) \<and>
   (\<exists>df'. load_books (Inr spaced_header) = Inr df') \<and>
   \<not> set required_cols \<subseteq> set (map normalize_name (columns no_genre)) \<and>
   load_books (Inr no_genre) = Inl (ValueError [ustr ''genre'']) \<and>
   run (Inr no_genre) [(GetRandom, 0)] = Inl (ValueError [ustr ''genre''])"
proof -
  have a: "set required_cols \<subseteq> set (map normalize_name (columns spaced_header))" by code_simp
  have b: "\<not> set required_cols \<subseteq> set (map normalize_name (columns no_genre))" by code_simp
  have c: "load_books (Inr no_genre) = Inl (ValueError [ustr ''genre''])" by code_simp
  note s = load_books_required_columns [of "Inr spaced_header"]
  note n = load_books_required_columns [of "Inr no_genre"]
  have 1: "\<exists>df'. load_books (Inr spaced_header) = Inr df'"
    using s a by blast
  from n b obtain missing where "load_books (Inr no_genre) = Inl (ValueError missing)"
    and "\<forall>reqs. run (Inr no_genre) reqs = Inl (ValueError missing)"
    by blast
  with c have 2: "run (Inr no_genre) [(GetRandom, 0)] = Inl (ValueError [ustr ''genre''])"
    by simp
  from a b c 1 2 show ?thesis by blast
qed

text \<open>
  C4. \<open>GET /mood\<close> without a \<open>tag\<close>, or with the empty \<open>tag\<close>, answers 400 with the body
  \<open>{"error": "missing_tag_param"}\<close>, whatever the table and the draw. The selector is not
  called: on a frame without columns \<open>pick_by_mood\<close> raises \<open>KeyError\<close>, and the handler
  still answers 400 there; and on the store the handler makes no object, where a call of
  \<open>pick_by_mood\<close> would make the candidate subset.
\<close>

theorem mood_book_missing_tag:
  "mood_book df None draw =
     Inr (Response 400 [(ustr ''error'', Str (ustr ''missing_tag_param''))]) \<and>
   mood_book df (Some []) draw =
     Inr (Response 400 [(ustr ''error'', Str (ustr ''missing_tag_param''))]) \<and>
   pick_by_mood \<lparr>columns = [], rows = []\<rparr> tag draw = Inl (KeyError (ustr ''mood_tag'')) \<and>
   mood_book \<lparr>columns = [], rows = []\<rparr> None draw =
     Inr (Response 400 [(ustr ''error'', Str (ustr ''missing_tag_param''))]) \<and>
   mood_book_st h a None draw =
     (Inr (Response 400 [(ustr ''error'', Str (ustr ''missing_tag_param''))]), h) \<and>
   mood_book_st h a (Some []) draw =
     (Inr (Response 400 [(ustr ''error'', Str (ustr ''missing_tag_param''))]), h)"
  by (simp add: mood_book_def mood_book_st_def respond_def pick_by_mood_def mood_subset_def
      getitem_def)

theorem mood_book_missing_tag_witness:
  "mood_book shelf None 3 =
     Inr (Response 400 [(ustr ''error'', Str (ustr ''missing_tag_param''))]) \<and>
   mood_book shelf (Some []) 3 =
     Inr (Response 400 [(ustr ''error'', Str (ustr ''missing_tag_param''))]) \<and>
   snd (mood_book_st [FrameObj shelf] 0 None 3) = [FrameObj shelf]"
  using mood_book_missing_tag [of shelf 3 _ "[FrameObj shelf]" 0] by simp










text \<open>
  C8. The selectors and the handlers only add objects to the store: every object that was
  there, the table among them, is as it was, after one call and after any sequence of
  requests, while \<open>BOOKS_DF\<close> keeps referring to the table. What they return is what the
  functions of the frame return. (The assignment to \<open>df.columns\<close> in \<open>load_books\<close>, by
  contrast, does change the frame object.)
\<close>

theorem selectors_leave_table:
  "prefix h (snd (pick_random_st h a draw)) \<and>
   prefix h (snd (pick_by_mood_st h a tag draw)) \<and>
   prefix h (snd (random_book_st h a draw)) \<and>
   prefix h (snd (mood_book_st h a mood draw)) \<and>
   (frame_at h a = Some df \<longrightarrow>
      frame_at (snd (pick_random_st h a draw)) a = Some df \<and>
      frame_at (snd (pick_by_mood_st h a tag draw)) a = Some df \<and>
      frame_at (snd (random_book_st h a draw)) a = Some df \<and>
      frame_at (snd (mood_book_st h a mood draw)) a = Some df \<and>
      points_to (snd (pick_random_st h a draw)) (fst (pick_random_st h a draw))
        (pick_random df draw) \<and>
      points_to (snd (pick_by_mood_st h a tag draw)) (fst (pick_by_mood_st h a tag draw))
        (pick_by_mood df tag draw) \<and>
      fst (random_book_st h a draw) = random_book df draw \<and>
      fst (mood_book_st h a mood draw) = mood_book df mood draw) \<and>
   BOOKS_DF (snd (serve_all w reqs)) = BOOKS_DF w \<and>
   prefix (objects w) (objects (snd (serve_all w reqs))) \<and>
   (frame_at (objects w) (BOOKS_DF w) = Some df \<longrightarrow>
      frame_at (objects (snd (serve_all w reqs))) (BOOKS_DF w) = Some df)"
proof -
  note p = pick_random_st_prefix [of h a draw] pick_by_mood_st_prefix [of h a tag draw]
    random_book_st_prefix [of h a draw] mood_book_st_prefix [of h a mood draw]
  have f: "frame_at h a = Some df \<longrightarrow>
      frame_at (snd (pick_random_st h a draw)) a = Some df \<and>
      frame_at (snd (pick_by_mood_st h a tag draw)) a = Some df \<and>
      frame_at (snd (random_book_st h a draw)) a = Some df \<and>
      frame_at (snd (mood_book_st h a mood draw)) a = Some df"
    using p by (auto intro: prefix_frame_at)
  have r: "frame_at h a = Some df \<longrightarrow>
      points_to (snd (pick_random_st h a draw)) (fst (pick_random_st h a draw))
        (pick_random df draw) \<and>
      points_to (snd (pick_by_mood_st h a tag draw)) (fst (pick_by_mood_st h a tag draw))
        (pick_by_mood df tag draw) \<and>
      fst (random_book_st h a draw) = random_book df draw \<and>
      fst (mood_book_st h a mood draw) = mood_book df mood draw"
    by (simp add: pick_random_st_result pick_by_mood_st_result random_book_st_result
        mood_book_st_result)
  note s = serve_all_prefix [of w reqs]
  have t: "frame_at (objects w) (BOOKS_DF w) = Some df \<longrightarrow>
      frame_at (objects (snd (serve_all w reqs))) (BOOKS_DF w) = Some df"
    using s by (auto intro: prefix_frame_at)
  from p f r s t show ?thesis by blast
qed

theorem selectors_leave_table_witness:
  "start (Inr shelf) = Inr \<lparr>objects = [FrameObj shelf], BOOKS_DF = 0\<rparr> \<and>
   frame_at [FrameObj shelf] 0 = Some shelf \<and>
   frame_at (objects (snd (serve_all \<lparr>objects = [FrameObj shelf], BOOKS_DF = 0\<rparr>
      [(GetRandom, 1), (GetMood (Some (ustr ''happy'')), 4), (GetHealth, 0)]))) 0 = Some shelf \<and>
   frame_at (snd (pick_by_mood_st [FrameObj shelf] 0 (ustr ''happy'') 4)) 0 = Some shelf \<and>
   length (snd (pick_by_mood_st [FrameObj shelf] 0 (ustr ''happy'') 4)) = 4 \<and>
   frame_at (set_columns [FrameObj shelf] 0 []) 0 \<noteq> Some shelf \<and>
   frame_at (snd (load_books_st (Inr spaced_header) [])) 0 \<noteq> Some spaced_header"
proof -
  let ?w = "\<lparr>objects = [FrameObj shelf], BOOKS_DF = 0\<rparr>"
  let ?reqs = "[(GetRandom, 1), (GetMood (Some (ustr ''happy'')), 4), (GetHealth, 0)]"
  have st: "start (Inr shelf) = Inr ?w" by code_simp
  have f: "frame_at [FrameObj shelf] 0 = Some shelf" by (simp add: frame_at_def)
  have n: "length (snd (pick_by_mood_st [FrameObj shelf] 0 (ustr ''happy'') 4)) = 4" by code_simp
  have w1: "frame_at (set_columns [FrameObj shelf] 0 []) 0 \<noteq> Some shelf" by code_simp
  have w2: "frame_at (snd (load_books_st (Inr spaced_header) [])) 0 \<noteq> Some spaced_header"
    by code_simp
  note t = selectors_leave_table [of "[FrameObj shelf]" 0 4 "ustr ''happy''" None shelf ?w ?reqs]
  from t f have 1: "frame_at (objects (snd (serve_all ?w ?reqs))) 0 = Some shelf" by simp
  from t f have 2: "frame_at (snd (pick_by_mood_st [FrameObj shelf] 0 (ustr ''happy'') 4)) 0 =
      Some shelf" by blast
  from st f 1 2 n w1 w2 show ?thesis by blast
qed

text \<open>
  C9. In every 200 response of \<open>GET /mood\<close> the \<open>mood\<close> value is the \<open>mood_tag\<close> cell of a row
  of the table that matches the tag, as stored; when that cell is not the tag the caller
  sent, letter for letter, the \<open>mood\<close> value differs from the tag.
\<close>

theorem mood_book_stored_case:
  assumes "mood_book df q draw = Inr (Response 200 b)"
  shows "\<exists>tag r. q = Some tag \<and> r \<in> set (rows df) \<and> mood_matches df tag r \<and>
           b = book_body (columns df) r \<and>
           map_of b (ustr ''mood'') = Some (field (columns df) r (ustr ''mood_tag'')) \<and>
           (field (columns df) r (ustr ''mood_tag'') \<noteq> Str tag \<longrightarrow> map_of b (ustr ''mood'') \<noteq> Some (Str tag))"
proof -
  from mood_book_200 [OF assms] obtain tag s d where q: "q = Some tag"
    and p: "pick_by_mood df tag draw = Inr (Some s)"
    and d: "dict_of s book_keys = Inr d" and j: "jsonify d = Inr b"
    by blast
  from pick_by_mood_row [OF p] have i: "index s = columns df"
    and r: "cells s \<in> set (rows df)" and m: "mood_matches df tag (cells s)"
    by simp_all
  have b: "b = book_body (columns df) (cells s)"
    using book_dict_body [OF d j] i by simp
  then have "map_of b (ustr ''mood'') = Some (field (columns df) (cells s) (ustr ''mood_tag''))"
    by (simp add: book_body_def ustr_eq_iff)
  with q r m b show ?thesis by auto
qed

theorem mood_book_stored_case_witness:
  "mood_book dune_table (Some (ustr ''EPIC'')) 0 = Inr (Response 200 (book_body (columns dune_table)
      [Str (ustr ''Dune''), Str (ustr ''Herbert''), Str (ustr ''SciFi''), Str (ustr ''Epic''), Str (ustr ''High''), Str (ustr ''Classic'')])) \<and>
   map_of (book_body (columns dune_table)
      [Str (ustr ''Dune''), Str (ustr ''Herbert''), Str (ustr ''SciFi''), Str (ustr ''Epic''), Str (ustr ''High''), Str (ustr ''Classic'')])
      (ustr ''mood'') = Some (Str (ustr ''Epic'')) \<and>
   map_of (book_body (columns dune_table)
      [Str (ustr ''Dune''), Str (ustr ''Herbert''), Str (ustr ''SciFi''), Str (ustr ''Epic''), Str (ustr ''High''), Str (ustr ''Classic'')])
      (ustr ''mood'') \<noteq> Some (Str (ustr ''EPIC''))"
proof -
  let ?r = "[Str (ustr ''Dune''), Str (ustr ''Herbert''), Str (ustr ''SciFi''), Str (ustr ''Epic''), Str (ustr ''High''), Str (ustr ''Classic'')]"
  let ?b = "book_body (columns dune_table) ?r"
  have e: "mood_book dune_table (Some (ustr ''EPIC'')) 0 = Inr (Response 200 ?b)" by code_simp
  have f: "field (columns dune_table) ?r (ustr ''mood_tag'') = Str (ustr ''Epic'')" by code_simp
  from mood_book_stored_case [OF e] obtain tag r where t: "Some (ustr ''EPIC'') = Some tag"
    and r: "r \<in> set (rows dune_table)"
    and m: "map_of ?b (ustr ''mood'') = Some (field (columns dune_table) r (ustr ''mood_tag''))"
    and n: "field (columns dune_table) r (ustr ''mood_tag'') \<noteq> Str tag \<longrightarrow>
        map_of ?b (ustr ''mood'') \<noteq> Some (Str tag)"
    by blast
  from r have "r = ?r" by (simp add: dune_table_def text_row_def)
  with m f have 1: "map_of ?b (ustr ''mood'') = Some (Str (ustr ''Epic''))" by simp
  then have 2: "map_of ?b (ustr ''mood'') \<noteq> Some (Str (ustr ''EPIC''))"
    by (simp add: ustr_eq_iff)
  from e 1 2 show ?thesis by blast
qed

text \<open>
  C10. On a loaded table whose rows have one cell per column, no lookup raises \<open>KeyError\<close>:
  not \<open>df["mood_tag"]\<close> in \<open>pick_by_mood\<close>, not the read of a required label from a row that
  a selector returned, and so neither handler, for any tag and draw and also when the table
  has no rows.
\<close>

theorem loaded_table_no_key_error:
  assumes "load_books r = Inr df" and "frame_ok df"
  shows "getitem df (ustr ''mood_tag'') \<noteq> Inl (KeyError k) \<and>
         pick_by_mood df tag draw \<noteq> Inl (KeyError k) \<and>
         (\<forall>s label. (pick_random df draw = Inr (Some s) \<or> pick_by_mood df tag draw = Inr (Some s)) \<and>
            label \<in> set required_cols \<longrightarrow> series_getitem s label \<noteq> Inl (KeyError k)) \<and>
         random_book df draw \<noteq> Inl (KeyError k) \<and>
         mood_book df q draw \<noteq> Inl (KeyError k)"
proof -
  have cols: "set required_cols \<subseteq> set (columns df)"
    using assms(1) by (rule load_books_columns)
  then have mt: "(ustr ''mood_tag'') \<in> set (columns df)"
    by (auto simp: required_cols_def)
  have row: "length (index s) = length (cells s) \<and> set required_cols \<subseteq> set (index s)"
    if "pick_random df draw = Inr (Some s) \<or> pick_by_mood df t draw = Inr (Some s)" for s t
  proof -
    from that have "index s = columns df \<and> cells s \<in> set (rows df)"
      by (auto dest: pick_random_row pick_by_mood_row)
    then show ?thesis
      using cols frame_ok_row [OF assms(2)] by simp
  qed
  have 1: "getitem df (ustr ''mood_tag'') \<noteq> Inl (KeyError k)"
    using mt by (simp add: getitem_def)
  have 2: "pick_by_mood df t draw \<noteq> Inl (KeyError k)" for t
    using mt by (auto dest: pick_by_mood_Inl)
  have 3: "\<forall>s label. (pick_random df draw = Inr (Some s) \<or> pick_by_mood df tag draw = Inr (Some s)) \<and>
      label \<in> set required_cols \<longrightarrow> series_getitem s label \<noteq> Inl (KeyError k)"
  proof (intro allI impI)
    fix s label
    assume a: "(pick_random df draw = Inr (Some s) \<or> pick_by_mood df tag draw = Inr (Some s)) \<and>
      label \<in> set required_cols"
    then have l: "length (index s) = length (cells s)" and c: "label \<in> set (index s)"
      using row [of s tag] by auto
    from series_no_key_error [OF l c, of "KeyError k"]
    show "series_getitem s label \<noteq> Inl (KeyError k)" by simp
  qed
  have 4: "random_book df draw \<noteq> Inl (KeyError k)"
  proof (cases "pick_random df draw")
    case (Inl e)
    then show ?thesis using pick_random_returns [of df draw] by simp
  next
    case (Inr res)
    show ?thesis
    proof (cases res)
      case None
      then show ?thesis using Inr by (simp add: random_book_def respond_def)
    next
      case (Some s)
      then have "length (index s) = length (cells s) \<and> set required_cols \<subseteq> set (index s)"
        using Inr row [of s tag] by simp
      then show ?thesis
        using Inr Some book_dict_no_key_error [of s 200 k] by (simp add: random_book_def)
    qed
  qed
  have 5: "mood_book df q draw \<noteq> Inl (KeyError k)"
  proof (cases q)
    case None
    then show ?thesis by (simp add: mood_book_def respond_def)
  next
    case (Some t)
    show ?thesis
    proof (cases "t = []")
      case True
      then show ?thesis using Some by (simp add: mood_book_def respond_def)
    next
      case False
      show ?thesis
      proof (cases "pick_by_mood df t draw")
        case (Inl e)
        then show ?thesis using Some False 2 [of t] by (simp add: mood_book_def)
      next
        case (Inr res)
        show ?thesis
        proof (cases res)
          case None
          then show ?thesis using Some False Inr by (simp add: mood_book_def respond_def)
        next
          case s: (Some s)
          then have "length (index s) = length (cells s) \<and> set required_cols \<subseteq> set (index s)"
            using Inr row [of s t] by simp
          then show ?thesis
            using Some False Inr s book_dict_no_key_error [of s 200 k]
            by (simp add: mood_book_def)
        qed
      qed
    qed
  qed
  from 1 2 [of tag] 3 4 5 show ?thesis by blast
qed

theorem loaded_table_no_key_error_witness:
  "load_books (Inr spaced_header) =
     Inr (spaced_header\<lparr>columns := map normalize_name (columns spaced_header)\<rparr>) \<and>
   frame_ok (spaced_header\<lparr>columns := map normalize_name (columns spaced_header)\<rparr>) \<and>
   rows (spaced_header\<lparr>columns := map normalize_name (columns spaced_header)\<rparr>) = [] \<and>
   mood_book (spaced_header\<lparr>columns := map normalize_name (columns spaced_header)\<rparr>)
     (Some (ustr ''calm'')) 0 \<noteq> Inl (KeyError (ustr ''mood_tag'')) \<and>
   load_books (Inr shelf) = Inr shelf \<and> frame_ok shelf \<and>
   random_book shelf 2 \<noteq> Inl (KeyError (ustr ''title''))"
proof -
  let ?e = "spaced_header\<lparr>columns := map normalize_name (columns spaced_header)\<rparr>"
  have l: "load_books (Inr spaced_header) = Inr ?e" by code_simp
  have f: "frame_ok ?e" by code_simp
  have n: "rows ?e = []" by (simp add: spaced_header_def)
  have l': "load_books (Inr shelf) = Inr shelf" by code_simp
  have f': "frame_ok shelf" by code_simp
  from loaded_table_no_key_error [OF l f, of "(ustr ''mood_tag'')" "(ustr ''calm'')" 0 "Some (ustr ''calm'')"]
  have 1: "mood_book ?e (Some (ustr ''calm'')) 0 \<noteq> Inl (KeyError (ustr ''mood_tag''))" by blast
  from loaded_table_no_key_error [OF l' f', of "(ustr ''title'')" "(ustr ''calm'')" 2 None]
  have 2: "random_book shelf 2 \<noteq> Inl (KeyError (ustr ''title''))" by blast
  from l f n l' f' 1 2 show ?thesis by blast
qed

end
